theory Spec2Isabelle
  imports Complex_Main "HOL-Library.Sublist" "HOL-Library.Multiset"
begin

section \<open>Text primitives\<close>

text \<open>
  Python strings are modelled as \<^typ>\<open>string\<close>, one \<^typ>\<open>char\<close> per character, over the
  ASCII range: \<open>str.lower\<close> maps \<open>A..Z\<close> to \<open>a..z\<close> and leaves every other character
  alone, and the regular expression class \<open>\w\<close> is \<open>[A-Za-z0-9_]\<close>. Characters outside
  ASCII are outside the model.
\<close>

definition is_upper :: "char \<Rightarrow> bool" where
  "is_upper c = (65 \<le> (of_char c :: nat) \<and> (of_char c :: nat) \<le> 90)"

definition lower_char :: "char \<Rightarrow> char" where
  "lower_char c = (if is_upper c then char_of ((of_char c :: nat) + 32) else c)"

text \<open>\<open>text.lower()\<close>\<close>

definition lower :: "string \<Rightarrow> string" where
  "lower s = map lower_char s"

definition is_word_char :: "char \<Rightarrow> bool" where
  "is_word_char c =
     (let n = (of_char c :: nat)
      in (48 \<le> n \<and> n \<le> 57) \<or> (65 \<le> n \<and> n \<le> 90) \<or> n = 95 \<or> (97 \<le> n \<and> n \<le> 122))"

text \<open>
  \<open>re.findall(r'\b\w+\b', s)\<close>: the scan collects the maximal runs of word characters from
  left to right. \<open>cur\<close> is the run being read.
\<close>

fun word_runs :: "string \<Rightarrow> string \<Rightarrow> string list" where
  "word_runs cur [] = (if cur = [] then [] else [cur])"
| "word_runs cur (c # cs) =
     (if is_word_char c then word_runs (cur @ [c]) cs
      else (if cur = [] then [] else [cur]) @ word_runs [] cs)"

definition findall_words :: "string \<Rightarrow> string list" where
  "findall_words s = word_runs [] s"

text \<open>Python's \<open>a in b\<close> on strings: \<open>a\<close> occurs in \<open>b\<close> as a contiguous substring.\<close>

fun str_in :: "string \<Rightarrow> string \<Rightarrow> bool" where
  "str_in a [] = (a = [])"
| "str_in a (c # cs) = (prefix a (c # cs) \<or> str_in a cs)"

text \<open>\<open>sep.join(xs)\<close>\<close>

fun join :: "string \<Rightarrow> string list \<Rightarrow> string" where
  "join sep [] = []"
| "join sep [x] = x"
| "join sep (x # y # ys) = x @ sep @ join sep (y # ys)"

definition is_space :: "char \<Rightarrow> bool" where
  "is_space c =
     (let n = (of_char c :: nat) in (9 \<le> n \<and> n \<le> 13) \<or> (28 \<le> n \<and> n \<le> 32))"

text \<open>\<open>s.strip()\<close>\<close>

definition strip :: "string \<Rightarrow> string" where
  "strip s = rev (dropWhile is_space (rev (dropWhile is_space s)))"

text \<open>An \<open>Optional[str]\<close> inside an f-string: \<open>None\<close> prints as the word None.\<close>

fun fmt_opt :: "string option \<Rightarrow> string" where
  "fmt_opt None = ''None''"
| "fmt_opt (Some s) = s"

text \<open>Truthiness of an \<open>Optional[str]\<close>.\<close>

fun truthy :: "string option \<Rightarrow> bool" where
  "truthy None = False"
| "truthy (Some s) = (s \<noteq> [])"


section \<open>Keyword extractor and intent classifier\<close>

definition stopwords :: "string list" where
  "stopwords =
     [''the'', ''a'', ''an'', ''and'', ''or'', ''but'', ''in'', ''on'', ''at'', ''to'', ''for'',
      ''of'', ''with'', ''by'', ''from'', ''is'', ''are'', ''was'', ''were'', ''i'', ''you'',
      ''my'', ''your'', ''do'', ''does'', ''need'', ''want'', ''looking'', ''find'', ''get'',
      ''have'', ''has'', ''can'', ''could'', ''would'', ''should'', ''will'', ''am'']"

definition extract_keywords :: "string \<Rightarrow> string list" where
  "extract_keywords text =
     (let words = findall_words (lower text)
      in filter (\<lambda>w. w \<notin> set stopwords \<and> length w > 2) words)"

datatype intent = Greeting | Thanks | Help | Register | Search | Unknown

definition greetings :: "string list" where
  "greetings = [''hi'', ''hello'', ''hey'', ''good morning'', ''good afternoon'',
     ''good evening'', ''sup'', ''what's up'', ''whatsup'']"

definition thanks :: "string list" where
  "thanks = [''thank'', ''thanks'', ''appreciate'', ''grateful'']"

definition bot_questions :: "string list" where
  "bot_questions = [''what can you do'', ''how does this work'', ''what is this'',
     ''help me'', ''what do you do'']"

definition register_keywords :: "string list" where
  "register_keywords = [''register'', ''sign up'', ''create account'', ''add my business'',
     ''list my business'', ''become vendor'']"

definition search_indicators :: "string list" where
  "search_indicators = [''need'', ''want'', ''looking'', ''find'', ''where'', ''who'', ''buy'',
     ''get'', ''order'', ''search'']"

text \<open>\<open>any(p in text_lower for p in phrases)\<close>\<close>

definition any_in :: "string list \<Rightarrow> string \<Rightarrow> bool" where
  "any_in phrases text_lower = list_ex (\<lambda>p. str_in p text_lower) phrases"

definition detect_intent :: "string \<Rightarrow> intent" where
  "detect_intent text =
     (let text_lower = lower text in
      if any_in greetings text_lower then Greeting
      else if any_in thanks text_lower then Thanks
      else if any_in bot_questions text_lower then Help
      else if any_in register_keywords text_lower then Register
      else if any_in search_indicators text_lower then Search
      else if length (extract_keywords text) > 0 then Search
      else Unknown)"

text \<open>
  The classifier as the specification words it: an ordered rule table, the first rule
  whose phrase list matches wins, then the keyword fallback, then Unknown.
\<close>

definition intent_rules :: "(string list \<times> intent) list" where
  "intent_rules =
     [(greetings, Greeting), (thanks, Thanks), (bot_questions, Help),
      (register_keywords, Register), (search_indicators, Search)]"

definition classify_spec :: "string \<Rightarrow> intent" where
  "classify_spec text =
     (case find (\<lambda>rule. any_in (fst rule) (lower text)) intent_rules of
        Some rule \<Rightarrow> snd rule
      | None \<Rightarrow> if extract_keywords text \<noteq> [] then Search else Unknown)"


section \<open>Store\<close>

text \<open>
  The three tables of \<open>init_db\<close>, each a list of rows in insertion order. A nullable
  column is an \<open>option\<close>; the timestamp columns and \<open>rating_id\<close>, which no handler
  reads back, are left out. \<open>avg_rating\<close> is SQLite's \<open>REAL\<close>, kept here as the exact
  quotient.
\<close>

record vendor =
  vendor_id :: int
  telegram_id :: int
  business_name :: string
  services :: string
  stored_keywords :: string
  contact :: string
  bot_username :: "string option"
  description :: "string option"
  price_range :: "string option"
  total_orders :: int
  avg_rating :: rat

datatype order_status = Pending | Completed | Flagged

record order =
  order_id :: int
  o_vendor_id :: int
  o_buyer_id :: int
  details :: string
  deadline :: string
  status :: order_status

record rating =
  r_order_id :: int
  r_vendor_id :: int
  r_buyer_id :: int
  stars :: int
  review_text :: "string option"

datatype py_error = KeyError | TypeError | AttributeError | IntegrityError

text \<open>\<open>AUTOINCREMENT\<close>: one more than the largest id in the table (rows are never deleted).\<close>

definition next_id :: "int list \<Rightarrow> int" where
  "next_id ids = fold max ids 0 + 1"


section \<open>Vendor matcher\<close>

text \<open>The dictionary \<open>search_vendors\<close> appends for a matching vendor.\<close>

record search_result =
  sr_vendor_id :: int
  sr_business_name :: string
  sr_services :: string
  sr_description :: "string option"
  sr_contact :: string
  sr_bot_username :: "string option"
  sr_price_range :: "string option"
  sr_avg_rating :: rat
  sr_total_orders :: int
  score :: int

definition to_result :: "vendor \<Rightarrow> int \<Rightarrow> search_result" where
  "to_result v sc =
     \<lparr>sr_vendor_id = vendor_id v, sr_business_name = business_name v,
      sr_services = services v, sr_description = description v, sr_contact = contact v,
      sr_bot_username = bot_username v, sr_price_range = price_range v,
      sr_avg_rating = avg_rating v, sr_total_orders = total_orders v, score = sc\<rparr>"

text \<open>\<open>f"{name} {services} {keywords} {desc}".lower()\<close>\<close>

definition searchable :: "vendor \<Rightarrow> string" where
  "searchable v =
     lower (business_name v @ '' '' @ services v @ '' '' @ stored_keywords v @ '' ''
            @ fmt_opt (description v))"

text \<open>The body of the loop over the vendors, up to the test \<open>score > 0\<close>.\<close>

definition vendor_score :: "string list \<Rightarrow> vendor \<Rightarrow> int" where
  "vendor_score query_keywords v =
     (let sc = sum_list (map (\<lambda>keyword. 1) (filter (\<lambda>keyword. str_in keyword (searchable v)) query_keywords))
      in if list_ex (\<lambda>keyword. str_in keyword (lower (services v))) query_keywords
         then sc + 2 else sc)"

fun scan_vendors :: "string list \<Rightarrow> vendor list \<Rightarrow> search_result list" where
  "scan_vendors query_keywords [] = []"
| "scan_vendors query_keywords (v # vs) =
     (let sc = vendor_score query_keywords v
      in if sc > 0 then to_result v sc # scan_vendors query_keywords vs
         else scan_vendors query_keywords vs)"

text \<open>
  \<open>results.sort(key=lambda x: x['score'], reverse=True)\<close>: Python's sort is stable, also
  with \<open>reverse=True\<close>, so the result is the stable sort by descending score.
\<close>

definition sort_by_score_desc :: "search_result list \<Rightarrow> search_result list" where
  "sort_by_score_desc results = sort_key (\<lambda>x. - score x) results"

definition search_vendors :: "string \<Rightarrow> vendor list \<Rightarrow> search_result list" where
  "search_vendors query vendor_rows =
     (let query_keywords = extract_keywords query
      in if query_keywords = [] then []
         else sort_by_score_desc (scan_vendors query_keywords vendor_rows))"




text \<open>Four vendor rows used as a running example.\<close>

definition vendor_row :: "int \<Rightarrow> string \<Rightarrow> string \<Rightarrow> string \<Rightarrow> vendor" where
  "vendor_row vid name svc descr =
     \<lparr>vendor_id = vid, telegram_id = 100 + vid, business_name = name, services = svc,
      stored_keywords = join '' '' (extract_keywords svc), contact = ''08012345678'',
      bot_username = None, description = Some descr, price_range = Some ''500 - 2000'',
      total_orders = 0, avg_rating = 0\<rparr>"

definition example_vendors :: "vendor list" where
  "example_vendors =
     [vendor_row 1 ''Mama Put'' ''Beans and plantain'' ''We also cook rice'',
      vendor_row 2 ''Jollof Spot'' ''Jollof rice, fried rice'' ''Best in town'',
      vendor_row 3 ''Clean It'' ''Laundry washing, ironing'' ''Fast and neat'',
      vendor_row 4 ''Stew Hub'' ''Stew'' ''Rice and stew daily'']"


section \<open>Conversation state, events and replies\<close>

text \<open>The states of the three \<open>StatesGroup\<close> classes.\<close>

datatype fsm_state =
    VR_business_name | VR_services | VR_contact | VR_bot_username | VR_description
  | VR_price_range
  | OP_vendor_id | OP_order_details | OP_deadline
  | RS_order_id | RS_stars | RS_review

text \<open>
  The FSM data dictionary. Each key is written by one handler only, which fixes the type
  of its value; the outer \<open>option\<close> says whether the key is present, an inner one is an
  \<open>Optional[str]\<close> taken from \<open>message.text\<close>.
\<close>

record fsm_data =
  d_business_name :: "string option option"
  d_services :: "string option"
  d_keywords :: "string option"
  d_contact :: "string option option"
  d_bot_username :: "string option option"
  d_description :: "string option"
  d_vendor_id :: "int option"
  d_order_details :: "string option option"
  d_order_id :: "int option"
  d_stars :: "int option"

definition empty_data :: fsm_data where
  "empty_data =
     \<lparr>d_business_name = None, d_services = None, d_keywords = None, d_contact = None,
      d_bot_username = None, d_description = None, d_vendor_id = None,
      d_order_details = None, d_order_id = None, d_stars = None\<rparr>"

text \<open>
  A message: the sender and \<open>message.text\<close>, which is \<open>None\<close> for a photo, a sticker and
  the like.
\<close>

record message =
  from_id :: int
  msg_text :: "string option"

text \<open>
  The payload of a button press, as the keyboards of the bot build it: a fixed prefix and
  a decimal number (\<open>vendor_7\<close>, \<open>order_7\<close>, \<open>rate_4\<close>, ...), here already split.
\<close>

datatype callback_data =
    CbVendor int | CbSearchAgain | CbBotOrder int | CbOrder int | CbComplete int
  | CbRate int | CbIncomplete int | CbContact int | CbOther

record callback =
  cb_from_id :: int
  cb_data :: callback_data

text \<open>
  What the bot sends, by kind. The wording of each text is not modelled; a keyboard is
  the list of the payloads of its buttons.
\<close>

datatype reply =
    WelcomeText | AlreadyRegistered string | AskBusinessName | AskServices | AskContact
  | AskBotUsername | AskDescription "string option" | AskPriceRange
  | RegistrationDone | RegistrationFailed
  | GreetingResponse | ThanksResponse | HelpText | NoVendorsFound | NotSure
  | VendorInfo int "callback_data list" | VendorList nat "callback_data list"
  | SearchAgainPrompt | BotLink int | BotNotAvailable | ContactAlert string | VendorNotFound
  | AskOrderDetails | AskDeadline | VendorNotification int int | OrderPlaced int
  | FollowupScheduled int int | FollowupPrompt int "callback_data list"
  | AskStars "callback_data list" | AskReview int | ReviewThanks | FlaggedNote
  | NotAVendor | NoOrdersYet | OrderHistory "int list" | NoRatingsYet | RatingSummary "int list"

text \<open>
  The world one handler call sees: the conversation state and data of the acting user
  (the \<open>FSMContext\<close> handed to the handler), the store, and what has been sent so far.
\<close>

record world =
  cur_state :: "fsm_state option"
  fdata :: fsm_data
  vendors :: "vendor list"
  orders :: "order list"
  ratings :: "rating list"
  outbox :: "reply list"

definition say :: "reply \<Rightarrow> world \<Rightarrow> world" where
  "say r w = w\<lparr>outbox := outbox w @ [r]\<rparr>"

definition set_state :: "fsm_state \<Rightarrow> world \<Rightarrow> world" where
  "set_state s w = w\<lparr>cur_state := Some s\<rparr>"

text \<open>\<open>state.clear()\<close> drops the state and the data.\<close>

definition clear :: "world \<Rightarrow> world" where
  "clear w = w\<lparr>cur_state := None, fdata := empty_data\<rparr>"

text \<open>\<open>data[key]\<close>\<close>

fun lookup :: "'a option \<Rightarrow> py_error + 'a" where
  "lookup None = Inl KeyError"
| "lookup (Some x) = Inr x"

text \<open>Sequencing of two steps, the first of which may raise.\<close>

fun bind_err :: "py_error + 'a \<Rightarrow> ('a \<Rightarrow> py_error + 'b) \<Rightarrow> py_error + 'b" where
  "bind_err (Inl e) f = Inl e"
| "bind_err (Inr x) f = f x"


section \<open>Keyboards\<close>

definition vendor_action_keyboard :: "int \<Rightarrow> bool \<Rightarrow> callback_data list" where
  "vendor_action_keyboard vid has_bot =
     (if has_bot then [CbBotOrder vid] else [CbOrder vid]) @ [CbContact vid, CbSearchAgain]"

definition rating_keyboard :: "callback_data list" where
  "rating_keyboard = map CbRate [1, 2, 3, 4, 5]"

text \<open>\<open>vendors[:10]\<close>: the list shown is capped at ten buttons.\<close>

definition vendor_list_keyboard :: "search_result list \<Rightarrow> callback_data list" where
  "vendor_list_keyboard results =
     map (\<lambda>v. CbVendor (sr_vendor_id v)) (take 10 results) @ [CbSearchAgain]"


section \<open>Repository operations\<close>

definition get_vendor_by_telegram_id :: "int \<Rightarrow> vendor list \<Rightarrow> vendor option" where
  "get_vendor_by_telegram_id tid vs = find (\<lambda>v. telegram_id v = tid) vs"

definition get_vendor :: "int \<Rightarrow> vendor list \<Rightarrow> vendor option" where
  "get_vendor vid vs = find (\<lambda>v. vendor_id v = vid) vs"

definition get_order :: "int \<Rightarrow> order list \<Rightarrow> order option" where
  "get_order oid os = find (\<lambda>row. order_id row = oid) os"

text \<open>
  \<open>INSERT INTO vendors\<close>: \<open>business_name\<close> and \<open>contact\<close> are \<open>NOT NULL\<close>, \<open>telegram_id\<close>
  is \<open>UNIQUE\<close>; the counters take their defaults.
\<close>

definition insert_vendor ::
  "vendor list \<Rightarrow> int \<Rightarrow> string option \<Rightarrow> string \<Rightarrow> string \<Rightarrow> string option \<Rightarrow> string option
     \<Rightarrow> string \<Rightarrow> string option \<Rightarrow> py_error + vendor list" where
  "insert_vendor vs tid name svc kws con botname descr price =
     (case (name, con) of
        (Some n, Some c) \<Rightarrow>
          if list_ex (\<lambda>v. telegram_id v = tid) vs then Inl IntegrityError
          else Inr (vs @ [\<lparr>vendor_id = next_id (map vendor_id vs), telegram_id = tid,
                  business_name = n, services = svc, stored_keywords = kws, contact = c,
                  bot_username = botname, description = Some descr, price_range = price,
                  total_orders = 0, avg_rating = 0\<rparr>])
      | _ \<Rightarrow> Inl IntegrityError)"

text \<open>
  \<open>INSERT INTO orders\<close>: \<open>details\<close> and \<open>deadline\<close> are \<open>NOT NULL\<close>; the status takes its
  default \<open>'pending'\<close>. Returns \<open>lastrowid\<close> and the table.
\<close>

definition insert_order ::
  "order list \<Rightarrow> int \<Rightarrow> int \<Rightarrow> string option \<Rightarrow> string option \<Rightarrow> py_error + (int \<times> order list)" where
  "insert_order os vid buyer det dl =
     (case (det, dl) of
        (Some d, Some l) \<Rightarrow>
          (let oid = next_id (map order_id os)
           in Inr (oid, os @ [\<lparr>order_id = oid, o_vendor_id = vid, o_buyer_id = buyer,
                details = d, deadline = l, status = Pending\<rparr>]))
      | _ \<Rightarrow> Inl IntegrityError)"

text \<open>
  \<open>INSERT INTO ratings\<close>: \<open>order_id\<close> is \<open>UNIQUE\<close> and \<open>stars\<close> is checked to lie in
  \<open>1..5\<close>.
\<close>

definition insert_rating ::
  "rating list \<Rightarrow> int \<Rightarrow> int \<Rightarrow> int \<Rightarrow> int \<Rightarrow> string option \<Rightarrow> py_error + rating list" where
  "insert_rating rs oid vid buyer st review =
     (if list_ex (\<lambda>r. r_order_id r = oid) rs then Inl IntegrityError
      else if \<not> (1 \<le> st \<and> st \<le> 5) then Inl IntegrityError
      else Inr (rs @ [\<lparr>r_order_id = oid, r_vendor_id = vid, r_buyer_id = buyer, stars = st,
              review_text = review\<rparr>]))"

text \<open>\<open>UPDATE orders SET status = ? WHERE order_id = ?\<close>\<close>

definition set_order_status :: "int \<Rightarrow> order_status \<Rightarrow> order list \<Rightarrow> order list" where
  "set_order_status oid st os = map (\<lambda>row. if order_id row = oid then row\<lparr>status := st\<rparr> else row) os"

text \<open>
  \<open>update_vendor_rating\<close>: \<open>SELECT AVG(stars), COUNT(*) FROM ratings WHERE vendor_id = ?\<close>,
  with \<open>0.0\<close> in place of a \<open>NULL\<close> (or zero) average, written back to the vendor row.
\<close>

definition avg_stars :: "rating list \<Rightarrow> rat option" where
  "avg_stars rs = (if rs = [] then None else Some (of_int (sum_list (map stars rs)) / of_int (int (length rs))))"

definition update_vendor_rating :: "int \<Rightarrow> world \<Rightarrow> world" where
  "update_vendor_rating vid w =
     (let result = filter (\<lambda>r. r_vendor_id r = vid) (ratings w);
          avg = (case avg_stars result of None \<Rightarrow> 0 | Some a \<Rightarrow> if a = 0 then 0 else a);
          total = int (length result)
      in w\<lparr>vendors := map (\<lambda>v. if vendor_id v = vid
                                  then v\<lparr>avg_rating := avg, total_orders := total\<rparr> else v)
                            (vendors w)\<rparr>)"


section \<open>Handlers\<close>

text \<open>
  A handler takes the world and the event and either raises (\<open>Inl\<close>) or returns the world
  it leaves behind (\<open>Inr\<close>). In every handler below each statement that can raise comes
  before the first write, so a raise leaves the world as it was.
\<close>

type_synonym outcome = "py_error + world"

definition cmd_start :: "world \<Rightarrow> message \<Rightarrow> outcome" where
  "cmd_start w m = Inr (say WelcomeText w)"

definition cmd_register :: "world \<Rightarrow> message \<Rightarrow> outcome" where
  "cmd_register w m =
     (case get_vendor_by_telegram_id (from_id m) (vendors w) of
        Some existing_vendor \<Rightarrow> Inr (say (AlreadyRegistered (business_name existing_vendor)) w)
      | None \<Rightarrow> Inr (set_state VR_business_name (say AskBusinessName w)))"

definition process_business_name :: "world \<Rightarrow> message \<Rightarrow> outcome" where
  "process_business_name w m =
     Inr (set_state VR_services (say AskServices
            (w\<lparr>fdata := (fdata w)\<lparr>d_business_name := Some (msg_text m)\<rparr>\<rparr>)))"

definition process_services :: "world \<Rightarrow> message \<Rightarrow> outcome" where
  "process_services w m =
     (case msg_text m of
        None \<Rightarrow> Inl AttributeError
      | Some svc \<Rightarrow>
          (let kws = join '' '' (extract_keywords svc)
           in Inr (set_state VR_contact (say AskContact
                (w\<lparr>fdata := (fdata w)\<lparr>d_services := Some svc, d_keywords := Some kws\<rparr>\<rparr>)))))"

definition process_contact :: "world \<Rightarrow> message \<Rightarrow> outcome" where
  "process_contact w m =
     Inr (set_state VR_bot_username (say AskBotUsername
            (w\<lparr>fdata := (fdata w)\<lparr>d_contact := Some (msg_text m)\<rparr>\<rparr>)))"

definition negative_tokens :: "string list" where
  "negative_tokens = [''no'', ''skip'', ''none'', ''nope'', ''na'', ''n/a'', ''don't have'',
     ''dont have'']"

definition process_bot_username :: "world \<Rightarrow> message \<Rightarrow> outcome" where
  "process_bot_username w m =
     (case msg_text m of
        None \<Rightarrow> Inl AttributeError
      | Some t \<Rightarrow>
          (let botname =
                 (if lower t \<in> set negative_tokens then None
                  else (let b = strip t in if prefix ''@'' b then Some b else Some (''@'' @ b)))
           in Inr (set_state VR_description (say (AskDescription botname)
                (w\<lparr>fdata := (fdata w)\<lparr>d_bot_username := Some botname\<rparr>\<rparr>)))))"

definition process_description :: "world \<Rightarrow> message \<Rightarrow> outcome" where
  "process_description w m =
     (case msg_text m of
        None \<Rightarrow> Inl TypeError
      | Some t \<Rightarrow>
          Inr (set_state VR_price_range (say AskPriceRange
                 (w\<lparr>fdata := (fdata w)\<lparr>d_description := Some (take 200 t)\<rparr>\<rparr>))))"

text \<open>
  \<open>process_price_range\<close>: the body of the \<open>try\<close> is \<open>attempt\<close>; \<open>except Exception\<close>
  answers with the failure text, and \<open>finally\<close> clears the state on both paths.
\<close>

definition process_price_range :: "world \<Rightarrow> message \<Rightarrow> outcome" where
  "process_price_range w m =
     (let d = fdata w;
          attempt =
            bind_err (lookup (d_business_name d)) (\<lambda>name.
            bind_err (lookup (d_services d)) (\<lambda>svc.
            bind_err (lookup (d_keywords d)) (\<lambda>kws.
            bind_err (lookup (d_contact d)) (\<lambda>con.
            bind_err (lookup (d_description d)) (\<lambda>descr.
              insert_vendor (vendors w) (from_id m) name svc kws con
                (case d_bot_username d of None \<Rightarrow> None | Some b \<Rightarrow> b) descr (msg_text m))))))
      in case attempt of
           Inr vs' \<Rightarrow> Inr (clear (say RegistrationDone (w\<lparr>vendors := vs'\<rparr>)))
         | Inl e \<Rightarrow> Inr (clear (say RegistrationFailed w)))"

definition show_vendor_info :: "world \<Rightarrow> search_result \<Rightarrow> world" where
  "show_vendor_info w vendor =
     say (VendorInfo (sr_vendor_id vendor)
            (vendor_action_keyboard (sr_vendor_id vendor) (truthy (sr_bot_username vendor)))) w"

definition handle_conversation :: "world \<Rightarrow> message \<Rightarrow> outcome" where
  "handle_conversation w m =
     (if cur_state w \<noteq> None then Inr w
      else case msg_text m of
        None \<Rightarrow> Inl AttributeError
      | Some t \<Rightarrow>
          (case detect_intent t of
             Greeting \<Rightarrow> Inr (say GreetingResponse w)
           | Thanks \<Rightarrow> Inr (say ThanksResponse w)
           | Help \<Rightarrow> Inr (say HelpText w)
           | Register \<Rightarrow> cmd_register w m
           | Search \<Rightarrow>
               (case search_vendors t (vendors w) of
                  [] \<Rightarrow> Inr (say NoVendorsFound w)
                | [vendor] \<Rightarrow> Inr (show_vendor_info w vendor)
                | results \<Rightarrow>
                    Inr (say (VendorList (length results) (vendor_list_keyboard results)) w))
           | Unknown \<Rightarrow> Inr (say NotSure w)))"

definition show_vendor_details :: "world \<Rightarrow> int \<Rightarrow> outcome" where
  "show_vendor_details w vid =
     (case get_vendor vid (vendors w) of
        Some v \<Rightarrow> Inr (say (VendorInfo vid (vendor_action_keyboard vid (truthy (bot_username v)))) w)
      | None \<Rightarrow> Inr w)"

definition search_again :: "world \<Rightarrow> outcome" where
  "search_again w = Inr (say SearchAgainPrompt w)"

definition redirect_to_vendor_bot :: "world \<Rightarrow> int \<Rightarrow> outcome" where
  "redirect_to_vendor_bot w vid =
     (case get_vendor vid (vendors w) of
        Some v \<Rightarrow> if truthy (bot_username v) then Inr (say (BotLink vid) w)
                  else Inr (say BotNotAvailable w)
      | None \<Rightarrow> Inr (say BotNotAvailable w))"

definition start_order :: "world \<Rightarrow> int \<Rightarrow> outcome" where
  "start_order w vid =
     Inr (set_state OP_order_details (say AskOrderDetails
            (w\<lparr>fdata := (fdata w)\<lparr>d_vendor_id := Some vid\<rparr>\<rparr>)))"

definition process_order_details :: "world \<Rightarrow> message \<Rightarrow> outcome" where
  "process_order_details w m =
     Inr (set_state OP_deadline (say AskDeadline
            (w\<lparr>fdata := (fdata w)\<lparr>d_order_details := Some (msg_text m)\<rparr>\<rparr>)))"

text \<open>
  \<open>complete_order\<close> has no \<open>try\<close> around the insert. The notification to the vendor is
  best effort; the follow-up is handed to the event loop.
\<close>

definition complete_order :: "world \<Rightarrow> message \<Rightarrow> outcome" where
  "complete_order w m =
     bind_err (lookup (d_vendor_id (fdata w))) (\<lambda>vid.
     bind_err (lookup (d_order_details (fdata w))) (\<lambda>det.
     bind_err (insert_order (orders w) vid (from_id m) det (msg_text m)) (\<lambda>(oid, os').
       (let w1 = w\<lparr>orders := os'\<rparr>;
            w2 = (case get_vendor vid (vendors w) of
                    Some v \<Rightarrow>
                      say (FollowupScheduled oid (from_id m))
                        (say (OrderPlaced oid) (say (VendorNotification (telegram_id v) oid) w1))
                  | None \<Rightarrow> w1)
        in Inr (clear w2)))))"

text \<open>What \<open>schedule_order_followup\<close> does once its day of sleep is over.\<close>

definition schedule_order_followup :: "world \<Rightarrow> int \<Rightarrow> int \<Rightarrow> world" where
  "schedule_order_followup w oid buyer =
     (case get_order oid (orders w) of
        Some row \<Rightarrow>
          if status row = Pending
          then say (FollowupPrompt buyer [CbComplete oid, CbIncomplete oid]) w else w
      | None \<Rightarrow> w)"

definition order_completed :: "world \<Rightarrow> int \<Rightarrow> outcome" where
  "order_completed w oid =
     Inr (set_state RS_stars (say (AskStars rating_keyboard)
            (w\<lparr>orders := set_order_status oid Completed (orders w),
               fdata := (fdata w)\<lparr>d_order_id := Some oid\<rparr>\<rparr>)))"

definition process_rating_stars :: "world \<Rightarrow> int \<Rightarrow> outcome" where
  "process_rating_stars w n =
     Inr (set_state RS_review (say (AskReview n)
            (w\<lparr>fdata := (fdata w)\<lparr>d_stars := Some n\<rparr>\<rparr>)))"

definition process_review :: "world \<Rightarrow> message \<Rightarrow> outcome" where
  "process_review w m =
     bind_err (lookup (d_order_id (fdata w))) (\<lambda>oid.
     bind_err (lookup (d_stars (fdata w))) (\<lambda>st.
       (let review = (if msg_text m = Some ''/skip'' then None else msg_text m)
        in case get_order oid (orders w) of
             None \<Rightarrow> Inl TypeError
           | Some row \<Rightarrow>
               bind_err (insert_rating (ratings w) oid (o_vendor_id row) (from_id m) st review)
                 (\<lambda>rs'. Inr (clear (say ReviewThanks
                    (update_vendor_rating (o_vendor_id row) (w\<lparr>ratings := rs'\<rparr>))))))))"

definition order_incomplete :: "world \<Rightarrow> int \<Rightarrow> outcome" where
  "order_incomplete w oid =
     Inr (say FlaggedNote (w\<lparr>orders := set_order_status oid Flagged (orders w)\<rparr>))"

text \<open>
  The two listings read the store only; \<open>ORDER BY created_at DESC\<close> is the reverse of the
  insertion order.
\<close>

definition cmd_order_history :: "world \<Rightarrow> message \<Rightarrow> outcome" where
  "cmd_order_history w m =
     (case get_vendor_by_telegram_id (from_id m) (vendors w) of
        None \<Rightarrow> Inr (say NotAVendor w)
      | Some v \<Rightarrow>
          (let rows = take 15 (rev (filter (\<lambda>row. o_vendor_id row = vendor_id v) (orders w)))
           in if rows = [] then Inr (say NoOrdersYet w)
              else Inr (say (OrderHistory (map order_id rows)) w)))"

definition cmd_my_rating :: "world \<Rightarrow> message \<Rightarrow> outcome" where
  "cmd_my_rating w m =
     (case get_vendor_by_telegram_id (from_id m) (vendors w) of
        None \<Rightarrow> Inr (say NotAVendor w)
      | Some v \<Rightarrow>
          (let rows = rev (filter (\<lambda>r. r_vendor_id r = vendor_id v) (ratings w))
           in if rows = [] then Inr (say NoRatingsYet w)
              else Inr (say (RatingSummary (map stars (take 5 rows))) w)))"

definition show_contact :: "world \<Rightarrow> int \<Rightarrow> outcome" where
  "show_contact w vid =
     (case get_vendor vid (vendors w) of
        Some v \<Rightarrow> Inr (say (ContactAlert (contact v)) w)
      | None \<Rightarrow> Inr (say VendorNotFound w))"


section \<open>Dispatch\<close>

text \<open>
  The dispatcher offers an event to the handlers in the order in which the source
  registers them and calls the first one whose filters pass; the event is then handled,
  whatever that handler does. An event no handler accepts is dropped.
\<close>

datatype message_handler =
    H_cmd_start | H_cmd_register
  | H_process_business_name | H_process_services | H_process_contact
  | H_process_bot_username | H_process_description | H_process_price_range
  | H_handle_conversation
  | H_process_order_details | H_complete_order | H_process_review
  | H_cmd_order_history | H_cmd_my_rating

text \<open>
  \<open>Command(name)\<close>: the first word of the text is \<open>/name\<close> (the form \<open>/name@bot\<close> is not
  modelled).
\<close>

definition is_command :: "string \<Rightarrow> message \<Rightarrow> bool" where
  "is_command name m =
     (case msg_text m of
        None \<Rightarrow> False
      | Some t \<Rightarrow> takeWhile (\<lambda>c. \<not> is_space c) t = CHR ''/'' # name)"

text \<open>\<open>F.text & ~F.text.startswith('/')\<close>\<close>

definition is_free_text :: "message \<Rightarrow> bool" where
  "is_free_text m =
     (case msg_text m of None \<Rightarrow> False | Some t \<Rightarrow> t \<noteq> [] \<and> \<not> prefix ''/'' t)"

definition route_message :: "fsm_state option \<Rightarrow> message \<Rightarrow> message_handler option" where
  "route_message st m =
     (if is_command ''start'' m then Some H_cmd_start
      else if is_command ''register'' m then Some H_cmd_register
      else if st = Some VR_business_name then Some H_process_business_name
      else if st = Some VR_services then Some H_process_services
      else if st = Some VR_contact then Some H_process_contact
      else if st = Some VR_bot_username then Some H_process_bot_username
      else if st = Some VR_description then Some H_process_description
      else if st = Some VR_price_range then Some H_process_price_range
      else if is_free_text m then Some H_handle_conversation
      else if st = Some OP_order_details then Some H_process_order_details
      else if st = Some OP_deadline then Some H_complete_order
      else if st = Some RS_review then Some H_process_review
      else if is_command ''orderhistory'' m then Some H_cmd_order_history
      else if is_command ''myrating'' m then Some H_cmd_my_rating
      else None)"

fun run_message_handler :: "message_handler \<Rightarrow> world \<Rightarrow> message \<Rightarrow> outcome" where
  "run_message_handler H_cmd_start = cmd_start"
| "run_message_handler H_cmd_register = cmd_register"
| "run_message_handler H_process_business_name = process_business_name"
| "run_message_handler H_process_services = process_services"
| "run_message_handler H_process_contact = process_contact"
| "run_message_handler H_process_bot_username = process_bot_username"
| "run_message_handler H_process_description = process_description"
| "run_message_handler H_process_price_range = process_price_range"
| "run_message_handler H_handle_conversation = handle_conversation"
| "run_message_handler H_process_order_details = process_order_details"
| "run_message_handler H_complete_order = complete_order"
| "run_message_handler H_process_review = process_review"
| "run_message_handler H_cmd_order_history = cmd_order_history"
| "run_message_handler H_cmd_my_rating = cmd_my_rating"

definition dispatch_message :: "world \<Rightarrow> message \<Rightarrow> outcome" where
  "dispatch_message w m =
     (case route_message (cur_state w) m of
        None \<Rightarrow> Inr w
      | Some h \<Rightarrow> run_message_handler h w m)"

text \<open>
  Button presses: every callback handler filters on the prefix of the payload only,
  except \<open>process_rating_stars\<close>, which also asks for the state \<open>RatingState.stars\<close>.
\<close>

definition dispatch_callback :: "world \<Rightarrow> callback \<Rightarrow> outcome" where
  "dispatch_callback w cb =
     (case cb_data cb of
        CbVendor vid \<Rightarrow> show_vendor_details w vid
      | CbSearchAgain \<Rightarrow> search_again w
      | CbBotOrder vid \<Rightarrow> redirect_to_vendor_bot w vid
      | CbOrder vid \<Rightarrow> start_order w vid
      | CbComplete oid \<Rightarrow> order_completed w oid
      | CbRate n \<Rightarrow> if cur_state w = Some RS_stars then process_rating_stars w n else Inr w
      | CbIncomplete oid \<Rightarrow> order_incomplete w oid
      | CbContact vid \<Rightarrow> show_contact w vid
      | CbOther \<Rightarrow> Inr w)"

datatype event = Message message | Callback callback

text \<open>
  One update: an exception that leaves a handler is logged by the dispatcher and the
  world stays as the handler left it, which is as it was.
\<close>

definition feed_update :: "world \<Rightarrow> event \<Rightarrow> world" where
  "feed_update w ev =
     (case (case ev of Message m \<Rightarrow> dispatch_message w m | Callback cb \<Rightarrow> dispatch_callback w cb) of
        Inl e \<Rightarrow> w
      | Inr w' \<Rightarrow> w')"

text \<open>A fresh world: empty store, idle conversation, nothing sent.\<close>

definition init_world :: world where
  "init_world =
     \<lparr>cur_state = None, fdata = empty_data, vendors = [], orders = [], ratings = [],
      outbox = []\<rparr>"


section \<open>Example worlds\<close>

definition example_order :: "int \<Rightarrow> order_status \<Rightarrow> order" where
  "example_order oid st =
     \<lparr>order_id = oid, o_vendor_id = 2, o_buyer_id = 7, details = ''2 plates'',
      deadline = ''ASAP'', status = st\<rparr>"





text \<open>
  Buyer 7 has pressed the order button of vendor 2, has sent the order details, and is
  asked for the deadline.
\<close>

definition deadline_world :: world where
  "deadline_world =
     \<lparr>cur_state = Some OP_deadline,
      fdata = empty_data\<lparr>d_vendor_id := Some 2, d_order_details := Some (Some ''/2 plates'')\<rparr>,
      vendors = example_vendors, orders = [], ratings = [], outbox = []\<rparr>"

text \<open>A photo or a sticker: a message without text.\<close>

definition photo_message :: message where
  "photo_message = \<lparr>from_id = 7, msg_text = None\<rparr>"

definition asap_message :: message where
  "asap_message = \<lparr>from_id = 7, msg_text = Some ''/asap''\<rparr>"

text \<open>
  The owner of vendor 2 (telegram id 102) has gone through the registration steps a
  second time and is asked for the price range.
\<close>

definition price_world :: world where
  "price_world =
     \<lparr>cur_state = Some VR_price_range,
      fdata = empty_data\<lparr>d_business_name := Some (Some ''Jollof Spot''),
                d_services := Some ''Jollof rice'', d_keywords := Some ''jollof rice'',
                d_contact := Some (Some ''08012345678''), d_bot_username := Some None,
                d_description := Some ''Best in town''\<rparr>,
      vendors = example_vendors, orders = [], ratings = [], outbox = []\<rparr>"

definition price_message :: message where
  "price_message = \<lparr>from_id = 102, msg_text = Some ''500 - 2000''\<rparr>"

text \<open>Order 1 of buyer 7 is pending and the follow-up question is on the screen.\<close>

definition followup_world :: world where
  "followup_world =
     \<lparr>cur_state = None, fdata = empty_data, vendors = example_vendors,
      orders = [example_order 1 Pending], ratings = [], outbox = []\<rparr>"

definition press :: "callback_data \<Rightarrow> event" where
  "press d = Callback \<lparr>cb_from_id = 7, cb_data = d\<rparr>"


definition text_message :: "string \<Rightarrow> message" where
  "text_message t = \<lparr>from_id = 7, msg_text = Some t\<rparr>"


section \<open>Properties of the text primitives\<close>

lemma not_upper_lower_char: "\<not> is_upper (lower_char c)"
  by (simp add: lower_char_def is_upper_def)

lemma lower_char_id: "\<not> is_upper c \<Longrightarrow> lower_char c = c"
  by (simp add: lower_char_def)

lemma lower_idem: "lower (lower s) = lower s"
  by (simp add: lower_def not_upper_lower_char lower_char_id)

lemma lower_append: "lower (a @ b) = lower a @ lower b"
  by (simp add: lower_def)














section \<open>Keyword extractor\<close>







section \<open>Intent classifier\<close>

text \<open>
  Claim C1. \<open>detect_intent\<close> is the first-match evaluation of the rule table Greeting,
  Thanks, Help, Register, Search over the lowercased message, followed by the fallback
  Search when a keyword is extracted and by Unknown otherwise. So a message with a
  greeting phrase and a search indicator is a Greeting, and Unknown is returned exactly
  when no phrase list matches and no keyword is extracted.
\<close>

theorem detect_intent_first_match:
  "detect_intent t = classify_spec t
   \<and> (any_in greetings (lower t) \<and> any_in search_indicators (lower t) \<longrightarrow> detect_intent t = Greeting)
   \<and> (detect_intent t = Unknown \<longleftrightarrow>
        (\<forall>rule\<in>set intent_rules. \<not> any_in (fst rule) (lower t)) \<and> extract_keywords t = [])"
  by (simp add: detect_intent_def classify_spec_def intent_rules_def)

theorem detect_intent_first_match_witness:
  "any_in greetings (lower ''Hello, I need food'')
   \<and> any_in search_indicators (lower ''Hello, I need food'')
   \<and> detect_intent ''Hello, I need food'' = Greeting
   \<and> classify_spec ''I need food'' = Search
   \<and> detect_intent ''I need food'' = Search
   \<and> extract_keywords ''Is it?'' = []
   \<and> detect_intent ''Is it?'' = Unknown"
proof -
  have g: "any_in greetings (lower ''Hello, I need food'')" by code_simp
  have s: "any_in search_indicators (lower ''Hello, I need food'')" by code_simp
  have c: "classify_spec ''I need food'' = Search" by code_simp
  have k: "extract_keywords ''Is it?'' = []" by code_simp
  have n: "\<forall>rule\<in>set intent_rules. \<not> any_in (fst rule) (lower ''Is it?'')" by code_simp
  from detect_intent_first_match [of "''Hello, I need food''"] g s
  have 1: "detect_intent ''Hello, I need food'' = Greeting" by blast
  from detect_intent_first_match [of "''I need food''"] c
  have 2: "detect_intent ''I need food'' = Search" by simp
  from detect_intent_first_match [of "''Is it?''"] k n
  have 3: "detect_intent ''Is it?'' = Unknown" by blast
  from g s c k 1 2 3 show ?thesis by blast
qed


section \<open>Vendor matcher\<close>

lemma search_example: "map (\<lambda>r. (sr_vendor_id r, score r)) (search_vendors ''I need rice'' example_vendors) = [(2, 3), (1, 1), (4, 1)]"
  by code_simp

lemma search_example_repeated_keyword: "map (\<lambda>r. (sr_vendor_id r, score r)) (search_vendors ''rice, RICE and stew'' example_vendors) = [(4, 5), (2, 4), (1, 2)]"
  by code_simp















section \<open>Conversation and store\<close>

lemma say_fields [simp]:
  "cur_state (say r w) = cur_state w" "fdata (say r w) = fdata w"
  "vendors (say r w) = vendors w" "orders (say r w) = orders w"
  "ratings (say r w) = ratings w" "outbox (say r w) = outbox w @ [r]"
  by (simp_all add: say_def)

lemma clear_fields [simp]:
  "cur_state (clear w) = None" "fdata (clear w) = empty_data"
  "vendors (clear w) = vendors w" "orders (clear w) = orders w"
  "ratings (clear w) = ratings w" "outbox (clear w) = outbox w"
  by (simp_all add: clear_def)

lemma set_state_fields [simp]:
  "cur_state (set_state s w) = Some s" "fdata (set_state s w) = fdata w"
  "vendors (set_state s w) = vendors w" "orders (set_state s w) = orders w"
  "ratings (set_state s w) = ratings w" "outbox (set_state s w) = outbox w"
  by (simp_all add: set_state_def)

lemma update_vendor_rating_fields [simp]:
  "cur_state (update_vendor_rating vid w) = cur_state w"
  "fdata (update_vendor_rating vid w) = fdata w"
  "orders (update_vendor_rating vid w) = orders w"
  "ratings (update_vendor_rating vid w) = ratings w"
  "outbox (update_vendor_rating vid w) = outbox w"
  by (simp_all add: update_vendor_rating_def Let_def)




lemma process_review_result:
  assumes "process_review w m = Inr w'"
  shows "\<exists>oid st row r. d_order_id (fdata w) = Some oid \<and> d_stars (fdata w) = Some st
           \<and> get_order oid (orders w) = Some row
           \<and> r_vendor_id r = o_vendor_id row \<and> stars r = st \<and> r_order_id r = oid
           \<and> w' = clear (say ReviewThanks
                     (update_vendor_rating (o_vendor_id row) (w\<lparr>ratings := ratings w @ [r]\<rparr>)))"
proof -
  from assms obtain oid where oid: "d_order_id (fdata w) = Some oid"
    by (cases "d_order_id (fdata w)") (simp_all add: process_review_def)
  from assms oid obtain st where st: "d_stars (fdata w) = Some st"
    by (cases "d_stars (fdata w)") (simp_all add: process_review_def)
  from assms oid st obtain row where row: "get_order oid (orders w) = Some row"
    by (cases "get_order oid (orders w)") (simp_all add: process_review_def)
  let ?review = "if msg_text m = Some ''/skip'' then None else msg_text m"
  let ?r = "\<lparr>r_order_id = oid, r_vendor_id = o_vendor_id row, r_buyer_id = from_id m,
            stars = st, review_text = ?review\<rparr>"
  from assms oid st row
  have "insert_rating (ratings w) oid (o_vendor_id row) (from_id m) st ?review = Inr (ratings w @ [?r])"
    by (auto simp: process_review_def insert_rating_def Let_def split: if_splits)
  with assms oid st row
  have "w' = clear (say ReviewThanks
               (update_vendor_rating (o_vendor_id row) (w\<lparr>ratings := ratings w @ [?r]\<rparr>)))"
    by (simp add: process_review_def Let_def)
  with oid st row show ?thesis by (intro exI [of _ oid] exI [of _ st] exI [of _ row] exI [of _ ?r]) simp
qed




section \<open>Failure of the store at completion\<close>

text \<open>
  The last registration step always ends the flow: whatever goes wrong inside its \<open>try\<close>,
  the state and the data are cleared, the store keeps no part of the vendor and the
  failure text is sent; on success exactly one vendor row is added.
\<close>

lemma process_price_range_outcome:
  "\<exists>w'. process_price_range w m = Inr w' \<and> cur_state w' = None \<and> fdata w' = empty_data
     \<and> orders w' = orders w \<and> ratings w' = ratings w
     \<and> ((vendors w' = vendors w \<and> outbox w' = outbox w @ [RegistrationFailed])
          \<or> (\<exists>v. vendors w' = vendors w @ [v] \<and> telegram_id v = from_id m
                  \<and> d_services (fdata w) = Some (services v)
                  \<and> outbox w' = outbox w @ [RegistrationDone]))"
proof -
  let ?d = "fdata w"
  let ?attempt = "bind_err (lookup (d_business_name ?d)) (\<lambda>name.
            bind_err (lookup (d_services ?d)) (\<lambda>svc.
            bind_err (lookup (d_keywords ?d)) (\<lambda>kws.
            bind_err (lookup (d_contact ?d)) (\<lambda>con.
            bind_err (lookup (d_description ?d)) (\<lambda>descr.
              insert_vendor (vendors w) (from_id m) name svc kws con
                (case d_bot_username ?d of None \<Rightarrow> None | Some b \<Rightarrow> b) descr (msg_text m))))))"
  show ?thesis
  proof (cases ?attempt)
    case (Inl e)
    then have "process_price_range w m = Inr (clear (say RegistrationFailed w))"
      by (simp add: process_price_range_def Let_def)
    then show ?thesis by simp
  next
    case (Inr vs')
    then have p: "process_price_range w m = Inr (clear (say RegistrationDone (w\<lparr>vendors := vs'\<rparr>)))"
      by (simp add: process_price_range_def Let_def)
    from Inr have "\<exists>v. vs' = vendors w @ [v] \<and> telegram_id v = from_id m
                  \<and> d_services (fdata w) = Some (services v)"
      by (cases "d_business_name ?d"; cases "d_services ?d"; cases "d_keywords ?d";
          cases "d_contact ?d"; cases "d_description ?d")
         (auto simp: insert_vendor_def split: option.splits if_splits)
    with p show ?thesis by auto
  qed
qed

lemma registration_failure_example:
  "route_message (cur_state price_world) price_message = Some H_process_price_range
   \<and> cur_state (feed_update price_world (Message price_message)) = None
   \<and> fdata (feed_update price_world (Message price_message)) = empty_data
   \<and> vendors (feed_update price_world (Message price_message)) = vendors price_world
   \<and> outbox (feed_update price_world (Message price_message)) = [RegistrationFailed]"
  by code_simp

text \<open>
  Claim C6 asks the same of the order flow. There \<open>complete_order\<close> has no \<open>try\<close>: when the
  insert fails the exception leaves the handler before \<open>state.clear()\<close> and before any
  answer. A message without text sent as the deadline makes the insert fail on the
  \<open>NOT NULL\<close> column \<open>deadline\<close>; the user stays in the deadline step and is told
  nothing.
\<close>

theorem complete_order_insert_failure:
  "cur_state deadline_world = Some OP_deadline
   \<and> route_message (cur_state deadline_world) photo_message = Some H_complete_order
   \<and> complete_order deadline_world photo_message = Inl IntegrityError
   \<and> feed_update deadline_world (Message photo_message) = deadline_world
   \<and> outbox (feed_update deadline_world (Message photo_message)) = []"
proof -
  have a: "cur_state deadline_world = Some OP_deadline" by (simp add: deadline_world_def)
  have b: "route_message (cur_state deadline_world) photo_message = Some H_complete_order"
    by code_simp
  have c: "complete_order deadline_world photo_message = Inl IntegrityError" by code_simp
  from a b c have d: "feed_update deadline_world (Message photo_message) = deadline_world"
    by (simp add: feed_update_def dispatch_message_def)
  have e: "outbox deadline_world = []" by (simp add: deadline_world_def)
  from a b c d e show ?thesis by simp
qed


section \<open>Order status\<close>

lemma cmd_register_orders: "cmd_register w m = Inr w' \<Longrightarrow> orders w' = orders w"
  by (auto simp: cmd_register_def split: option.splits)

lemma handle_conversation_orders: "handle_conversation w m = Inr w' \<Longrightarrow> orders w' = orders w"
  by (auto simp: handle_conversation_def show_vendor_info_def cmd_register_orders
           split: if_splits option.splits intent.splits list.splits)

lemma complete_order_orders:
  assumes "complete_order w m = Inr w'"
  shows "\<exists>row. orders w' = orders w @ [row] \<and> status row = Pending"
proof -
  from assms obtain vid where vid: "d_vendor_id (fdata w) = Some vid"
    by (cases "d_vendor_id (fdata w)") (simp_all add: complete_order_def)
  from assms vid obtain det where det: "d_order_details (fdata w) = Some det"
    by (cases "d_order_details (fdata w)") (simp_all add: complete_order_def)
  from assms vid det obtain oid os' where
    ins: "insert_order (orders w) vid (from_id m) det (msg_text m) = Inr (oid, os')"
    by (cases "insert_order (orders w) vid (from_id m) det (msg_text m)")
       (auto simp: complete_order_def)
  then have os': "\<exists>row. os' = orders w @ [row] \<and> status row = Pending"
    by (auto simp: insert_order_def Let_def split: option.splits)
  from assms vid det ins have "orders w' = os'"
    by (auto simp: complete_order_def Let_def split: option.splits)
  with os' show ?thesis by simp
qed

lemma process_review_orders: "process_review w m = Inr w' \<Longrightarrow> orders w' = orders w"
  using process_review_result [of w m w'] by auto

lemma process_price_range_orders: "process_price_range w m = Inr w' \<Longrightarrow> orders w' = orders w"
  using process_price_range_outcome [of w m] by auto

lemma message_handler_orders:
  assumes "run_message_handler h w m = Inr w'"
  shows "orders w' = orders w \<or> (\<exists>row. orders w' = orders w @ [row] \<and> status row = Pending)"
proof (cases h)
  case H_cmd_start
  with assms show ?thesis by (auto simp: cmd_start_def)
next
  case H_cmd_register
  with assms show ?thesis by (simp add: cmd_register_orders)
next
  case H_process_business_name
  with assms show ?thesis by (auto simp: process_business_name_def)
next
  case H_process_services
  with assms show ?thesis by (auto simp: process_services_def Let_def split: option.splits)
next
  case H_process_contact
  with assms show ?thesis by (auto simp: process_contact_def)
next
  case H_process_bot_username
  with assms show ?thesis by (auto simp: process_bot_username_def Let_def split: option.splits)
next
  case H_process_description
  with assms show ?thesis by (auto simp: process_description_def split: option.splits)
next
  case H_process_price_range
  with assms show ?thesis by (simp add: process_price_range_orders)
next
  case H_handle_conversation
  with assms show ?thesis by (simp add: handle_conversation_orders)
next
  case H_process_order_details
  with assms show ?thesis by (auto simp: process_order_details_def)
next
  case H_complete_order
  with assms show ?thesis by (simp add: complete_order_orders)
next
  case H_process_review
  with assms show ?thesis by (simp add: process_review_orders)
next
  case H_cmd_order_history
  with assms show ?thesis
    by (auto simp: cmd_order_history_def Let_def split: option.splits if_splits)
next
  case H_cmd_my_rating
  with assms show ?thesis
    by (auto simp: cmd_my_rating_def Let_def split: option.splits if_splits)
qed

lemma dispatch_message_orders:
  assumes "dispatch_message w m = Inr w'"
  shows "orders w' = orders w \<or> (\<exists>row. orders w' = orders w @ [row] \<and> status row = Pending)"
proof (cases "route_message (cur_state w) m")
  case None
  with assms show ?thesis by (simp add: dispatch_message_def)
next
  case (Some h)
  with assms have "run_message_handler h w m = Inr w'" by (simp add: dispatch_message_def)
  then show ?thesis by (rule message_handler_orders)
qed

lemma dispatch_callback_orders:
  assumes "dispatch_callback w cb = Inr w'"
    and "\<forall>oid. cb_data cb \<noteq> CbComplete oid \<and> cb_data cb \<noteq> CbIncomplete oid"
  shows "orders w' = orders w"
  using assms
  by (cases "cb_data cb")
     (auto simp: dispatch_callback_def show_vendor_details_def search_again_def
        redirect_to_vendor_bot_def start_order_def process_rating_stars_def show_contact_def
        split: option.splits if_splits)

text \<open>
  Claim C7, as far as it holds. Only two handlers write the status of an order:
  \<open>order_completed\<close> writes \<open>completed\<close> and \<open>order_incomplete\<close> writes \<open>flagged\<close>, each to
  the order named in the button, whatever its status was. Every other event leaves the
  orders as they are or appends one pending order, and the follow-up question with the
  two buttons is sent only for an order that is still pending.
\<close>

theorem order_status_writes:
  "orders (feed_update w (Callback \<lparr>cb_from_id = u, cb_data = CbComplete oid\<rparr>))
     = set_order_status oid Completed (orders w)
   \<and> orders (feed_update w (Callback \<lparr>cb_from_id = u, cb_data = CbIncomplete oid\<rparr>))
     = set_order_status oid Flagged (orders w)
   \<and> ((\<forall>cb. ev = Callback cb \<longrightarrow>
          (\<forall>oid. cb_data cb \<noteq> CbComplete oid \<and> cb_data cb \<noteq> CbIncomplete oid)) \<longrightarrow>
        orders (feed_update w ev) = orders w
        \<or> (\<exists>row. orders (feed_update w ev) = orders w @ [row] \<and> status row = Pending))
   \<and> (outbox (schedule_order_followup w oid u) \<noteq> outbox w \<longrightarrow>
        (\<exists>row. get_order oid (orders w) = Some row \<and> status row = Pending))"
proof (intro conjI impI)
  show "orders (feed_update w (Callback \<lparr>cb_from_id = u, cb_data = CbComplete oid\<rparr>))
     = set_order_status oid Completed (orders w)"
    by (simp add: feed_update_def dispatch_callback_def order_completed_def)
  show "orders (feed_update w (Callback \<lparr>cb_from_id = u, cb_data = CbIncomplete oid\<rparr>))
     = set_order_status oid Flagged (orders w)"
    by (simp add: feed_update_def dispatch_callback_def order_incomplete_def)
next
  assume a: "\<forall>cb. ev = Callback cb \<longrightarrow>
          (\<forall>oid. cb_data cb \<noteq> CbComplete oid \<and> cb_data cb \<noteq> CbIncomplete oid)"
  show "orders (feed_update w ev) = orders w
        \<or> (\<exists>row. orders (feed_update w ev) = orders w @ [row] \<and> status row = Pending)"
  proof (cases ev)
    case (Message m)
    show ?thesis
    proof (cases "dispatch_message w m")
      case (Inl e)
      with Message show ?thesis by (simp add: feed_update_def)
    next
      case (Inr w')
      with Message have "feed_update w ev = w'" by (simp add: feed_update_def)
      with dispatch_message_orders [OF Inr] show ?thesis by simp
    qed
  next
    case (Callback cb)
    with a have nc: "\<forall>oid. cb_data cb \<noteq> CbComplete oid \<and> cb_data cb \<noteq> CbIncomplete oid"
      by simp
    show ?thesis
    proof (cases "dispatch_callback w cb")
      case (Inl e)
      with Callback show ?thesis by (simp add: feed_update_def)
    next
      case (Inr w')
      with Callback have "feed_update w ev = w'" by (simp add: feed_update_def)
      with dispatch_callback_orders [OF Inr nc] show ?thesis by simp
    qed
  qed
next
  assume "outbox (schedule_order_followup w oid u) \<noteq> outbox w"
  then show "\<exists>row. get_order oid (orders w) = Some row \<and> status row = Pending"
    by (auto simp: schedule_order_followup_def split: option.splits if_splits)
qed

theorem order_status_writes_witness:
  "(\<exists>row. orders (feed_update deadline_world (Message asap_message)) = orders deadline_world @ [row]
          \<and> status row = Pending)
   \<and> outbox (schedule_order_followup followup_world 1 7) \<noteq> outbox followup_world
   \<and> (\<exists>row. get_order 1 (orders followup_world) = Some row \<and> status row = Pending)
   \<and> map status (orders (feed_update followup_world (press (CbComplete 1)))) = [Completed]"
proof -
  have n: "orders (feed_update deadline_world (Message asap_message)) \<noteq> orders deadline_world"
    by code_simp
  have "\<forall>cb. Message asap_message = Callback cb \<longrightarrow>
          (\<forall>oid. cb_data cb \<noteq> CbComplete oid \<and> cb_data cb \<noteq> CbIncomplete oid)" by simp
  with order_status_writes [of deadline_world _ _ "Message asap_message"] n
  have 1: "\<exists>row. orders (feed_update deadline_world (Message asap_message)) = orders deadline_world @ [row]
          \<and> status row = Pending" by blast
  have o: "outbox (schedule_order_followup followup_world 1 7) \<noteq> outbox followup_world"
    by code_simp
  with order_status_writes [of followup_world 7 1]
  have 2: "\<exists>row. get_order 1 (orders followup_world) = Some row \<and> status row = Pending" by blast
  from order_status_writes [of followup_world 7 1]
  have "orders (feed_update followup_world (press (CbComplete 1)))
        = set_order_status 1 Completed (orders followup_world)" by (simp add: press_def)
  then have 3: "map status (orders (feed_update followup_world (press (CbComplete 1)))) = [Completed]"
    by (simp add: followup_world_def set_order_status_def example_order_def)
  from 1 o 2 3 show ?thesis by blast
qed

text \<open>
  Claim C7 as stated fails: neither handler looks at the current status. Pressing the
  second button of the follow-up after the first turns a completed order into a flagged
  one, and a flagged order into a completed one.
\<close>

theorem completed_order_reflagged:
  "map status (orders followup_world) = [Pending]
   \<and> map status (orders (feed_update followup_world (press (CbComplete 1)))) = [Completed]
   \<and> map status (orders (feed_update (feed_update followup_world (press (CbComplete 1)))
                                      (press (CbIncomplete 1)))) = [Flagged]
   \<and> map status (orders (feed_update (feed_update followup_world (press (CbIncomplete 1)))
                                      (press (CbComplete 1)))) = [Completed]"
  by code_simp


section \<open>Routing while a flow is active\<close>

lemma free_text_not_command: "is_free_text m \<Longrightarrow> \<not> is_command name m"
proof (cases "msg_text m")
  case None
  then show ?thesis by (simp add: is_command_def)
next
  case (Some t)
  assume "is_free_text m"
  with Some have t: "t \<noteq> []" "\<not> prefix ''/'' t" by (simp_all add: is_free_text_def)
  then obtain c cs where tc: "t = c # cs" and c: "c \<noteq> CHR ''/''" by (cases t) auto
  then have "takeWhile (\<lambda>c. \<not> is_space c) t \<noteq> CHR ''/'' # name" by (auto split: if_splits)
  with Some show ?thesis by (simp add: is_command_def)
qed


lemma handle_conversation_in_flow: "cur_state w \<noteq> None \<Longrightarrow> handle_conversation w m = Inr w"
  by (simp add: handle_conversation_def)

lemma route_free_text:
  assumes "is_free_text m"
  shows "route_message st m =
     (if st = Some VR_business_name then Some H_process_business_name
      else if st = Some VR_services then Some H_process_services
      else if st = Some VR_contact then Some H_process_contact
      else if st = Some VR_bot_username then Some H_process_bot_username
      else if st = Some VR_description then Some H_process_description
      else if st = Some VR_price_range then Some H_process_price_range
      else Some H_handle_conversation)"
  using assms free_text_not_command [OF assms] by (simp add: route_message_def)


text \<open>
  Claim C4, as far as it holds. While a flow is active \<open>handle_conversation\<close> returns at
  once: the message is not classified, no vendor is searched, and state, data, store and
  outbox stay as they are. In a registration step a free-text message goes to the handler
  of that step. The conversation has a single state, but entering a flow by button does
  not look at it: \<open>order_<id>\<close> puts the user into the order details step and
  \<open>complete_<id>\<close> into the stars step from any state.
\<close>

theorem in_flow_free_text:
  "(cur_state w \<noteq> None \<longrightarrow> handle_conversation w m = Inr w)
   \<and> (is_free_text m \<longrightarrow>
        (cur_state w = Some VR_business_name \<longrightarrow> dispatch_message w m = process_business_name w m)
      \<and> (cur_state w = Some VR_services \<longrightarrow> dispatch_message w m = process_services w m)
      \<and> (cur_state w = Some VR_contact \<longrightarrow> dispatch_message w m = process_contact w m)
      \<and> (cur_state w = Some VR_bot_username \<longrightarrow> dispatch_message w m = process_bot_username w m)
      \<and> (cur_state w = Some VR_description \<longrightarrow> dispatch_message w m = process_description w m)
      \<and> (cur_state w = Some VR_price_range \<longrightarrow> dispatch_message w m = process_price_range w m))
   \<and> cur_state (feed_update w (Callback \<lparr>cb_from_id = u, cb_data = CbOrder vid\<rparr>))
        = Some OP_order_details
   \<and> cur_state (feed_update w (Callback \<lparr>cb_from_id = u, cb_data = CbComplete oid\<rparr>))
        = Some RS_stars"
proof -
  have 1: "cur_state w \<noteq> None \<longrightarrow> handle_conversation w m = Inr w"
    by (simp add: handle_conversation_in_flow)
  have 2: "is_free_text m \<longrightarrow>
        (cur_state w = Some VR_business_name \<longrightarrow> dispatch_message w m = process_business_name w m)
      \<and> (cur_state w = Some VR_services \<longrightarrow> dispatch_message w m = process_services w m)
      \<and> (cur_state w = Some VR_contact \<longrightarrow> dispatch_message w m = process_contact w m)
      \<and> (cur_state w = Some VR_bot_username \<longrightarrow> dispatch_message w m = process_bot_username w m)
      \<and> (cur_state w = Some VR_description \<longrightarrow> dispatch_message w m = process_description w m)
      \<and> (cur_state w = Some VR_price_range \<longrightarrow> dispatch_message w m = process_price_range w m)"
    by (simp add: dispatch_message_def route_free_text)
  have 3: "cur_state (feed_update w (Callback \<lparr>cb_from_id = u, cb_data = CbOrder vid\<rparr>))
        = Some OP_order_details"
    by (simp add: feed_update_def dispatch_callback_def start_order_def)
  have 4: "cur_state (feed_update w (Callback \<lparr>cb_from_id = u, cb_data = CbComplete oid\<rparr>))
        = Some RS_stars"
    by (simp add: feed_update_def dispatch_callback_def order_completed_def)
  from 1 2 3 4 show ?thesis by blast
qed

theorem in_flow_free_text_witness:
  "cur_state price_world \<noteq> None
   \<and> handle_conversation price_world (text_message ''I need food'') = Inr price_world
   \<and> is_free_text price_message
   \<and> cur_state price_world = Some VR_price_range
   \<and> dispatch_message price_world price_message = process_price_range price_world price_message
   \<and> cur_state (feed_update price_world (press (CbOrder 2))) = Some OP_order_details"
proof -
  have a: "cur_state price_world = Some VR_price_range" by (simp add: price_world_def)
  have b: "is_free_text price_message" by code_simp
  from in_flow_free_text [of price_world "text_message ''I need food''"] a
  have 1: "handle_conversation price_world (text_message ''I need food'') = Inr price_world"
    by simp
  from in_flow_free_text [of price_world price_message] a b
  have 2: "dispatch_message price_world price_message
           = process_price_range price_world price_message" by simp
  from in_flow_free_text [of price_world _ 7 2]
  have 3: "cur_state (feed_update price_world (press (CbOrder 2))) = Some OP_order_details"
    by (simp add: press_def)
  from a b 1 2 3 show ?thesis by simp
qed

text \<open>
  Claim C4 as stated fails where it excludes a second flow: a user in the first
  registration step who presses an order button is moved to the order flow, a user in
  the deadline step who presses a complete button is moved to the rating flow, and
  \<open>/register\<close> sent in the deadline step starts the registration.
\<close>

theorem second_flow_entered:
  "cur_state (feed_update init_world (Message (text_message ''/register'')))
     = Some VR_business_name
   \<and> cur_state (feed_update (feed_update init_world (Message (text_message ''/register'')))
                             (press (CbOrder 2)))
     = Some OP_order_details
   \<and> cur_state deadline_world = Some OP_deadline
   \<and> cur_state (feed_update deadline_world (press (CbComplete 1))) = Some RS_stars
   \<and> cur_state (feed_update deadline_world (Message (text_message ''/register'')))
     = Some VR_business_name"
  by code_simp

text \<open>
  \<open>handle_conversation\<close> is registered before the handlers of the order steps and of the
  review step, so it is also the handler that receives free text in those steps.
\<close>

lemma order_steps_free_text:
  "is_free_text m \<Longrightarrow>
     route_message (Some OP_order_details) m = Some H_handle_conversation
     \<and> route_message (Some OP_deadline) m = Some H_handle_conversation
     \<and> route_message (Some RS_review) m = Some H_handle_conversation"
  by (simp add: route_free_text)




end
